theory Spec2Isabelle
  imports Complex_Main
begin

section \<open>Values of the script\<close>

text \<open>
  The script \<^verbatim>\<open>tools/deploy-test-flow.py\<close> handles three kinds of data: the values
  that \<^verbatim>\<open>json.load\<close> and \<^verbatim>\<open>response.json()\<close> hand back, HTTP responses of the
  \<^verbatim>\<open>requests\<close> library, and exceptions.

  A parsed JSON document is a Python value: \<^verbatim>\<open>None\<close>, a bool, an int, a float, a str,
  a list or a dict with string keys. A dict is kept as an association list in insertion
  order (the keys of a Python dict are distinct; lookups below never depend on it). A
  float is a finite double, kept as the rational it denotes, so that \<open>0.0\<close> and
  \<open>-0.0\<close> are both \<open>JFloat 0\<close>. A str is a \<open>string\<close>.
\<close>

datatype json =
    JNull
  | JBool bool
  | JInt int
  | JFloat rat
  | JString string
  | JArray "json list"
  | JObject "(string \<times> json) list"

text \<open>
  The exceptions that the operations of the script raise. All of them derive from
  Python's \<^verbatim>\<open>Exception\<close>, the class both handlers of the script catch.
  \<open>AttributeError t a\<close> is the access of attribute \<open>a\<close> on a value of type \<open>t\<close>,
  \<open>KeyError k\<close> the subscript of a dict with the absent key \<open>k\<close>, \<open>TypeError t\<close> the
  call of \<^verbatim>\<open>len\<close> or \<^verbatim>\<open>iter\<close> on a value of type \<open>t\<close>.
\<close>

datatype exc =
    FileNotFoundError
  | PermissionError
  | OSError string
  | JSONDecodeError
  | RequestException string
  | AttributeError string string
  | KeyError string
  | TypeError string

text \<open>
  A \<^verbatim>\<open>requests.Response\<close>, as far as the script reads it: the status code, the body
  as text, and what \<^verbatim>\<open>response.json()\<close> makes of the body (\<open>None\<close> when the body is
  not JSON, where the call raises).
\<close>

record response =
  status_code :: int
  body_text :: string
  json_body :: "json option"

subsection \<open>Effects\<close>

text \<open>
  What a run does to the outside is a list of events, in order: the file it opens, the
  HTTP requests it issues, the lines it prints and the time it sleeps. A printed line is
  the list of the pieces of its f-string: literal text, and \<^verbatim>\<open>str()\<close> of an int, of a
  JSON value or of an exception.
\<close>

datatype piece =
    Lit string
  | StrInt int
  | StrJson json
  | StrExc exc

datatype event =
    OpenRead string
  | HttpGet string
  | HttpPost string "(string \<times> string) list" json
  | Print "piece list"
  | Sleep nat

text \<open>
  A computation yields the value it returns, or the exception that leaves it (\<open>Inl\<close>),
  together with the events it caused up to that point.
\<close>

type_synonym 'a io = "(exc + 'a) \<times> event list"

definition ret :: "'a \<Rightarrow> 'a io" where
  "ret x = (Inr x, [])"

definition raise :: "exc \<Rightarrow> 'a io" where
  "raise e = (Inl e, [])"

definition emit :: "event \<Rightarrow> unit io" where
  "emit ev = (Inr (), [ev])"

definition print :: "piece list \<Rightarrow> unit io" where
  "print line = emit (Print line)"

text \<open>Sequencing: an exception in the first computation skips the second.\<close>

definition bind_io :: "'a io \<Rightarrow> ('a \<Rightarrow> 'b io) \<Rightarrow> 'b io" where
  "bind_io m f =
     (case m of
        (Inl e, t) \<Rightarrow> (Inl e, t)
      | (Inr x, t) \<Rightarrow> (case f x of (r, t') \<Rightarrow> (r, t @ t')))"

text \<open>\<^verbatim>\<open>try: m  except Exception as e: h e\<close>\<close>

definition try_except :: "'a io \<Rightarrow> (exc \<Rightarrow> 'a io) \<Rightarrow> 'a io" where
  "try_except m h =
     (case m of
        (Inl e, t) \<Rightarrow> (case h e of (r, t') \<Rightarrow> (r, t @ t'))
      | (Inr x, t) \<Rightarrow> (Inr x, t))"

subsection \<open>Python operations on parsed JSON\<close>

definition py_type_name :: "json \<Rightarrow> string" where
  "py_type_name j =
     (case j of
        JNull \<Rightarrow> ''NoneType''
      | JBool _ \<Rightarrow> ''bool''
      | JInt _ \<Rightarrow> ''int''
      | JFloat _ \<Rightarrow> ''float''
      | JString _ \<Rightarrow> ''str''
      | JArray _ \<Rightarrow> ''list''
      | JObject _ \<Rightarrow> ''dict'')"

text \<open>Truth value of a Python object, as \<^verbatim>\<open>if revision:\<close> tests it.\<close>

definition py_truthy :: "json \<Rightarrow> bool" where
  "py_truthy j =
     (case j of
        JNull \<Rightarrow> False
      | JBool b \<Rightarrow> b
      | JInt i \<Rightarrow> i \<noteq> 0
      | JFloat r \<Rightarrow> r \<noteq> 0
      | JString s \<Rightarrow> s \<noteq> []
      | JArray xs \<Rightarrow> xs \<noteq> []
      | JObject kvs \<Rightarrow> kvs \<noteq> [])"

text \<open>\<^verbatim>\<open>obj.get(key, default)\<close>: only a dict has the method.\<close>

definition py_get :: "json \<Rightarrow> string \<Rightarrow> json \<Rightarrow> json io" where
  "py_get obj key dflt =
     (case obj of
        JObject kvs \<Rightarrow> ret (case map_of kvs key of None \<Rightarrow> dflt | Some v \<Rightarrow> v)
      | _ \<Rightarrow> raise (AttributeError (py_type_name obj) ''get''))"

text \<open>\<^verbatim>\<open>d[key] = value\<close> on a dict: an existing key keeps its place, a new one goes last.\<close>

fun dict_set :: "(string \<times> json) list \<Rightarrow> string \<Rightarrow> json \<Rightarrow> (string \<times> json) list" where
  "dict_set [] k v = [(k, v)]"
| "dict_set ((k', v') # kvs) k v =
     (if k' = k then (k, v) # kvs else (k', v') # dict_set kvs k v)"

text \<open>\<^verbatim>\<open>len(obj)\<close> and the items a \<^verbatim>\<open>for\<close> loop over \<open>obj\<close> visits.\<close>

definition py_len :: "json \<Rightarrow> nat io" where
  "py_len obj =
     (case obj of
        JArray xs \<Rightarrow> ret (length xs)
      | JObject kvs \<Rightarrow> ret (length kvs)
      | JString s \<Rightarrow> ret (length s)
      | _ \<Rightarrow> raise (TypeError (py_type_name obj)))"

definition py_iter :: "json \<Rightarrow> json list io" where
  "py_iter obj =
     (case obj of
        JArray xs \<Rightarrow> ret xs
      | JObject kvs \<Rightarrow> ret (map (\<lambda>kv. JString (fst kv)) kvs)
      | JString s \<Rightarrow> ret (map (\<lambda>c. JString [c]) s)
      | _ \<Rightarrow> raise (TypeError (py_type_name obj)))"

subsection \<open>The outside world\<close>

text \<open>
  The file and the remote service are inputs of the model. \<open>file\<close> is what
  \<^verbatim>\<open>open('test-flow.json', 'r')\<close> followed by \<^verbatim>\<open>json.load(f)\<close> comes to: the parsed
  document, or the exception of a missing file (\<open>FileNotFoundError\<close>), an unreadable
  one (\<open>PermissionError\<close>, \<open>OSError\<close>) or malformed content (\<open>JSONDecodeError\<close>).
  An HTTP call comes to a response or to the exception of the \<^verbatim>\<open>requests\<close> library.
\<close>

definition nodered_url :: string where
  "nodered_url = ''http://localhost:1880''"

definition load_flow_file :: "exc + json \<Rightarrow> json io" where
  "load_flow_file file = (file, [OpenRead ''test-flow.json''])"

definition requests_get :: "string \<Rightarrow> exc + response \<Rightarrow> response io" where
  "requests_get url outcome = (outcome, [HttpGet url])"

definition requests_post ::
    "string \<Rightarrow> json \<Rightarrow> (string \<times> string) list \<Rightarrow> exc + response \<Rightarrow> response io" where
  "requests_post url body headers outcome = (outcome, [HttpPost url headers body])"

definition response_json :: "response \<Rightarrow> json io" where
  "response_json r = (case json_body r of None \<Rightarrow> raise JSONDecodeError | Some j \<Rightarrow> ret j)"

section \<open>deploy_flow\<close>

text \<open>
  The body of the \<^verbatim>\<open>try\<close> block of \<^verbatim>\<open>deploy_flow\<close> (lines 16 to 41), for the
  document \<open>nodes\<close> read from the file. \<open>get_outcome\<close> is what the GET comes to, and
  \<open>post_outcome body\<close> what the POST of \<open>body\<close> comes to.
\<close>

definition deploy_try :: "json \<Rightarrow> exc + response \<Rightarrow> (json \<Rightarrow> exc + response) \<Rightarrow> bool io" where
  "deploy_try nodes get_outcome post_outcome =
     bind_io (requests_get (nodered_url @ ''/flows'') get_outcome) (\<lambda>response.
     bind_io (if status_code response = 200
              then bind_io (response_json response) (\<lambda>flow_data. py_get flow_data ''rev'' JNull)
              else ret JNull) (\<lambda>revision.
     let flow_data = [(''flows'', nodes)];
         flow_data = (if py_truthy revision then dict_set flow_data ''rev'' revision
                      else flow_data);
         headers = [(''Content-Type'', ''application/json'')]
     in bind_io (requests_post (nodered_url @ ''/flows'') (JObject flow_data) headers
                   (post_outcome (JObject flow_data))) (\<lambda>response.
        if status_code response = 200
        then bind_io (print [Lit ''Flow deployed successfully!'']) (\<lambda>_. ret True)
        else bind_io (print [Lit ''Failed to deploy flow: '', StrInt (status_code response)]) (\<lambda>_.
             bind_io (print [Lit (body_text response)]) (\<lambda>_. ret False)))))"

text \<open>
  \<^verbatim>\<open>deploy_flow\<close>: the file is read first, outside the \<^verbatim>\<open>try\<close> block (lines 9 and
  10); the handler of lines 43 to 45 covers the rest.
\<close>

definition deploy_flow :: "exc + json \<Rightarrow> exc + response \<Rightarrow> (json \<Rightarrow> exc + response) \<Rightarrow> bool io" where
  "deploy_flow file get_outcome post_outcome =
     bind_io (load_flow_file file) (\<lambda>nodes.
     try_except (deploy_try nodes get_outcome post_outcome) (\<lambda>e.
       bind_io (print [Lit ''Error deploying flow: '', StrExc e]) (\<lambda>_. ret False)))"

section \<open>get_flow_status\<close>

text \<open>
  The body of the \<^verbatim>\<open>for\<close> loop of \<^verbatim>\<open>get_flow_status\<close> (lines 56 to 59) for one
  item \<open>node\<close>. \<^verbatim>\<open>node.get('type')\<close> comes first, and raises on anything but a dict.
  On a dict, \<^verbatim>\<open>node.get('type') == 'tab'\<close> holds when the key is there with the str
  \<^verbatim>\<open>'tab'\<close>; the \<^verbatim>\<open>elif\<close> branch subscripts \<^verbatim>\<open>node['name']\<close>, which is there, and
  \<^verbatim>\<open>node['type']\<close>, which raises when the key is absent.
\<close>

definition print_node :: "json \<Rightarrow> unit io" where
  "print_node node =
     (case node of
        JObject d \<Rightarrow>
          if map_of d ''type'' = Some (JString ''tab'')
          then print [Lit ''Flow tab: '',
                      StrJson (case map_of d ''label'' of None \<Rightarrow> JString ''Unnamed'' | Some l \<Rightarrow> l)]
          else (case map_of d ''name'' of
                  None \<Rightarrow> ret ()
                | Some name \<Rightarrow>
                    (case map_of d ''type'' of
                       None \<Rightarrow> raise (KeyError ''type'')
                     | Some ty \<Rightarrow>
                         print [Lit ''Node: '', StrJson name, Lit '' (Type: '', StrJson ty, Lit '')'']))
      | _ \<Rightarrow> raise (AttributeError (py_type_name node) ''get''))"

text \<open>The \<^verbatim>\<open>for\<close> loop: the items in order, up to the first exception.\<close>

fun for_each :: "('a \<Rightarrow> unit io) \<Rightarrow> 'a list \<Rightarrow> unit io" where
  "for_each body [] = ret ()"
| "for_each body (x # xs) = bind_io (body x) (\<lambda>_. for_each body xs)"

text \<open>The \<^verbatim>\<open>try\<close> block of \<^verbatim>\<open>get_flow_status\<close> (lines 49 to 63).\<close>

definition status_try :: "exc + response \<Rightarrow> bool io" where
  "status_try get_outcome =
     bind_io (requests_get (nodered_url @ ''/flows'') get_outcome) (\<lambda>response.
     if status_code response = 200
     then bind_io (response_json response) (\<lambda>flow_data.
          bind_io (py_get flow_data ''flows'' (JArray [])) (\<lambda>flows.
          bind_io (py_len flows) (\<lambda>n.
          bind_io (print [Lit ''Number of nodes: '', StrInt (int n)]) (\<lambda>_.
          bind_io (py_iter flows) (\<lambda>items.
          bind_io (for_each print_node items) (\<lambda>_.
          ret True))))))
     else bind_io (print [Lit ''Failed to get flows: '', StrInt (status_code response)]) (\<lambda>_.
          ret False))"

definition get_flow_status :: "exc + response \<Rightarrow> bool io" where
  "get_flow_status get_outcome =
     try_except (status_try get_outcome) (\<lambda>e.
       bind_io (print [Lit ''Error getting flow status: '', StrExc e]) (\<lambda>_. ret False))"

section \<open>The entry point\<close>

text \<open>
  The block under \<^verbatim>\<open>if __name__ == "__main__"\<close> (lines 69 to 79). \<open>status_outcome\<close>
  is what the GET of \<^verbatim>\<open>get_flow_status\<close> comes to. An exception that leaves
  \<^verbatim>\<open>deploy_flow\<close> ends the script.
\<close>

definition sleep :: "nat \<Rightarrow> unit io" where
  "sleep secs = emit (Sleep secs)"

definition main ::
    "exc + json \<Rightarrow> exc + response \<Rightarrow> (json \<Rightarrow> exc + response) \<Rightarrow> exc + response \<Rightarrow> unit io" where
  "main file get_outcome post_outcome status_outcome =
     bind_io (print [Lit ''Deploying test flow to Node-RED...'']) (\<lambda>_.
     bind_io (deploy_flow file get_outcome post_outcome) (\<lambda>deployed.
     if deployed
     then bind_io (print [Lit ''Waiting for flow to initialize...'']) (\<lambda>_.
          bind_io (sleep 5) (\<lambda>_.
          bind_io (print [Lit ''Checking flow status...'']) (\<lambda>_.
          bind_io (get_flow_status status_outcome) (\<lambda>_.
          bind_io (print [Lit ''\<newline>Flow deployed successfully! You can now view the results in Node-RED's debug panel.'']) (\<lambda>_.
          bind_io (print [Lit ''Access Node-RED at: http://localhost:1880'']) (\<lambda>_.
          print [Lit ''Make sure to click the 'Deploy' button in the Node-RED UI to activate the flow.'']))))))
     else print [Lit ''Failed to deploy flow.'']))"

section \<open>Reading a trace\<close>

text \<open>The bodies of the POST requests, the printed lines, the sleeps and the opened files of a trace.\<close>

definition post_bodies :: "event list \<Rightarrow> json list" where
  "post_bodies t = concat (map (\<lambda>ev. case ev of HttpPost _ _ b \<Rightarrow> [b] | _ \<Rightarrow> []) t)"

definition printed :: "event list \<Rightarrow> piece list list" where
  "printed t = concat (map (\<lambda>ev. case ev of Print l \<Rightarrow> [l] | _ \<Rightarrow> []) t)"

definition sleeps :: "event list \<Rightarrow> nat list" where
  "sleeps t = concat (map (\<lambda>ev. case ev of Sleep n \<Rightarrow> [n] | _ \<Rightarrow> []) t)"

definition opened :: "event list \<Rightarrow> string list" where
  "opened t = concat (map (\<lambda>ev. case ev of OpenRead f \<Rightarrow> [f] | _ \<Rightarrow> []) t)"

definition gets :: "event list \<Rightarrow> string list" where
  "gets t = concat (map (\<lambda>ev. case ev of HttpGet u \<Rightarrow> [u] | _ \<Rightarrow> []) t)"

definition has_key :: "json \<Rightarrow> string \<Rightarrow> bool" where
  "has_key j k = (case j of JObject kvs \<Rightarrow> map_of kvs k \<noteq> None | _ \<Rightarrow> False)"

text \<open>
  The text of a printed line, where every piece is literal text or \<^verbatim>\<open>str()\<close> of an
  int, a str, a bool or \<^verbatim>\<open>None\<close>. The text Python gives a float, a list, a dict or an
  exception is not modelled: such a line has no text here.
\<close>

fun show_nat :: "nat \<Rightarrow> string" where
  "show_nat n =
     (if n < 10 then [''0123456789'' ! n]
      else show_nat (n div 10) @ [''0123456789'' ! (n mod 10)])"

declare show_nat.simps [simp del]

definition show_int :: "int \<Rightarrow> string" where
  "show_int i = (if i < 0 then ''-'' @ show_nat (nat (- i)) else show_nat (nat i))"

definition render_piece :: "piece \<Rightarrow> string option" where
  "render_piece p =
     (case p of
        Lit s \<Rightarrow> Some s
      | StrInt i \<Rightarrow> Some (show_int i)
      | StrJson j \<Rightarrow>
          (case j of
             JString s \<Rightarrow> Some s
           | JInt i \<Rightarrow> Some (show_int i)
           | JBool b \<Rightarrow> Some (if b then ''True'' else ''False'')
           | JNull \<Rightarrow> Some ''None''
           | _ \<Rightarrow> None)
      | StrExc _ \<Rightarrow> None)"

fun render_line :: "piece list \<Rightarrow> string option" where
  "render_line [] = Some []"
| "render_line (p # ps) =
     (case render_piece p of
        None \<Rightarrow> None
      | Some s \<Rightarrow> (case render_line ps of None \<Rightarrow> None | Some r \<Rightarrow> Some (s @ r)))"

definition console :: "event list \<Rightarrow> string option list" where
  "console t = map render_line (printed t)"

section \<open>The summary, in the words of the specification\<close>

text \<open>
  The lines that the specification gives one descriptor of the summary: a tab line with
  the label (\<^verbatim>\<open>"Unnamed"\<close> without one) when its type is \<^verbatim>\<open>"tab"\<close>, else a node line
  with name and type when it has a name, else nothing. This definition follows the
  specification, not the code; \<open>print_node\<close> above is the code.
\<close>

definition spec_node_lines :: "json \<Rightarrow> event list" where
  "spec_node_lines node =
     (case node of
        JObject d \<Rightarrow>
          (if map_of d ''type'' = Some (JString ''tab'')
           then [Print [Lit ''Flow tab: '',
                        StrJson (case map_of d ''label'' of None \<Rightarrow> JString ''Unnamed'' | Some l \<Rightarrow> l)]]
           else (case (map_of d ''name'', map_of d ''type'') of
                   (Some name, Some ty) \<Rightarrow>
                     [Print [Lit ''Node: '', StrJson name, Lit '' (Type: '', StrJson ty, Lit '')'']]
                 | _ \<Rightarrow> []))
      | _ \<Rightarrow> [])"

text \<open>A descriptor: a JSON object. One that has a name and no type lacks its type.\<close>

definition is_descriptor :: "json \<Rightarrow> bool" where
  "is_descriptor node = (case node of JObject _ \<Rightarrow> True | _ \<Rightarrow> False)"

definition lacks_type :: "json \<Rightarrow> bool" where
  "lacks_type node =
     (case node of
        JObject d \<Rightarrow> map_of d ''name'' \<noteq> None \<and> map_of d ''type'' = None
      | _ \<Rightarrow> False)"

section \<open>Auxiliary facts\<close>

lemmas io_defs = ret_def raise_def emit_def print_def bind_io_def try_except_def

lemmas http_defs =
  requests_get_def requests_post_def response_json_def load_flow_file_def nodered_url_def

lemmas deploy_defs = deploy_flow_def deploy_try_def io_defs http_defs py_get_def

subsection \<open>deploy_flow, by what the GET comes to\<close>

lemma deploy_flow_get_error:
  "deploy_flow (Inr nodes) (Inl e) post_outcome =
     (Inr False, [OpenRead ''test-flow.json'', HttpGet ''http://localhost:1880/flows'',
                  Print [Lit ''Error deploying flow: '', StrExc e]])"
  by (simp add: deploy_defs)

lemma deploy_flow_get_unparsed:
  "status_code g = 200 \<Longrightarrow> json_body g = None \<Longrightarrow>
   deploy_flow (Inr nodes) (Inr g) post_outcome =
     (Inr False, [OpenRead ''test-flow.json'', HttpGet ''http://localhost:1880/flows'',
                  Print [Lit ''Error deploying flow: '', StrExc JSONDecodeError]])"
  by (simp add: deploy_defs)

lemma deploy_flow_get_not_dict:
  "status_code g = 200 \<Longrightarrow> json_body g = Some j \<Longrightarrow> \<not> is_descriptor j \<Longrightarrow>
   deploy_flow (Inr nodes) (Inr g) post_outcome =
     (Inr False, [OpenRead ''test-flow.json'', HttpGet ''http://localhost:1880/flows'',
                  Print [Lit ''Error deploying flow: '', StrExc (AttributeError (py_type_name j) ''get'')]])"
  by (cases j) (simp_all add: deploy_defs is_descriptor_def)


lemma deploy_flow_no_rev:
  assumes "status_code g \<noteq> 200 \<or>
           (json_body g = Some (JObject kvs) \<and>
            (case map_of kvs ''rev'' of None \<Rightarrow> True | Some v \<Rightarrow> \<not> py_truthy v))"
  shows "deploy_flow (Inr nodes) (Inr g) post_outcome =
     (case post_outcome (JObject [(''flows'', nodes)]) of
        Inl e \<Rightarrow>
          (Inr False,
           [OpenRead ''test-flow.json'', HttpGet ''http://localhost:1880/flows'',
            HttpPost ''http://localhost:1880/flows'' [(''Content-Type'', ''application/json'')]
              (JObject [(''flows'', nodes)]),
            Print [Lit ''Error deploying flow: '', StrExc e]])
      | Inr p \<Rightarrow>
          if status_code p = 200
          then (Inr True,
           [OpenRead ''test-flow.json'', HttpGet ''http://localhost:1880/flows'',
            HttpPost ''http://localhost:1880/flows'' [(''Content-Type'', ''application/json'')]
              (JObject [(''flows'', nodes)]),
            Print [Lit ''Flow deployed successfully!'']])
          else (Inr False,
           [OpenRead ''test-flow.json'', HttpGet ''http://localhost:1880/flows'',
            HttpPost ''http://localhost:1880/flows'' [(''Content-Type'', ''application/json'')]
              (JObject [(''flows'', nodes)]),
            Print [Lit ''Failed to deploy flow: '', StrInt (status_code p)],
            Print [Lit (body_text p)]]))"
proof (cases "status_code g = 200")
  case False
  then show ?thesis
    by (simp add: deploy_defs py_truthy_def split: sum.split)
next
  case True
  with assms have b: "json_body g = Some (JObject kvs)"
    and r: "case map_of kvs ''rev'' of None \<Rightarrow> True | Some v \<Rightarrow> \<not> py_truthy v"
    by simp_all
  show ?thesis
  proof (cases "map_of kvs ''rev''")
    case None
    with True b show ?thesis
      by (simp add: deploy_defs py_truthy_def split: sum.split)
  next
    case (Some v)
    with r have "\<not> py_truthy v" by simp
    with True b Some show ?thesis
      by (simp add: deploy_defs split: sum.split)
  qed
qed

lemma deploy_flow_with_rev:
  assumes "status_code g = 200" and "json_body g = Some (JObject kvs)"
    and "map_of kvs ''rev'' = Some v" and "py_truthy v"
  shows "deploy_flow (Inr nodes) (Inr g) post_outcome =
     (case post_outcome (JObject [(''flows'', nodes), (''rev'', v)]) of
        Inl e \<Rightarrow>
          (Inr False,
           [OpenRead ''test-flow.json'', HttpGet ''http://localhost:1880/flows'',
            HttpPost ''http://localhost:1880/flows'' [(''Content-Type'', ''application/json'')]
              (JObject [(''flows'', nodes), (''rev'', v)]),
            Print [Lit ''Error deploying flow: '', StrExc e]])
      | Inr p \<Rightarrow>
          if status_code p = 200
          then (Inr True,
           [OpenRead ''test-flow.json'', HttpGet ''http://localhost:1880/flows'',
            HttpPost ''http://localhost:1880/flows'' [(''Content-Type'', ''application/json'')]
              (JObject [(''flows'', nodes), (''rev'', v)]),
            Print [Lit ''Flow deployed successfully!'']])
          else (Inr False,
           [OpenRead ''test-flow.json'', HttpGet ''http://localhost:1880/flows'',
            HttpPost ''http://localhost:1880/flows'' [(''Content-Type'', ''application/json'')]
              (JObject [(''flows'', nodes), (''rev'', v)]),
            Print [Lit ''Failed to deploy flow: '', StrInt (status_code p)],
            Print [Lit (body_text p)]]))"
  using assms by (simp add: deploy_defs split: sum.split)


lemma get_outcome_cases:
  obtains (failed) e where "get_outcome = Inl e"
  | (unparsed) g where "get_outcome = Inr g" "status_code g = 200" "json_body g = None"
  | (not_dict) g j where "get_outcome = Inr g" "status_code g = 200" "json_body g = Some j"
      "\<not> is_descriptor j"
  | (no_rev) g kvs where "get_outcome = Inr g"
      "status_code g \<noteq> 200 \<or>
       (json_body g = Some (JObject kvs) \<and>
        (case map_of kvs ''rev'' of None \<Rightarrow> True | Some v \<Rightarrow> \<not> py_truthy v))"
  | (with_rev) g kvs v where "get_outcome = Inr g" "status_code g = 200"
      "json_body g = Some (JObject kvs)" "map_of kvs ''rev'' = Some v" "py_truthy v"
proof (cases get_outcome)
  case (Inl e)
  then show ?thesis by (rule failed)
next
  case (Inr g)
  show ?thesis
  proof (cases "status_code g = 200")
    case False
    with Inr show ?thesis by (intro no_rev [of g]) simp_all
  next
    case True
    show ?thesis
    proof (cases "json_body g")
      case None
      with Inr True show ?thesis by (intro unparsed [of g]) simp_all
    next
      case (Some j)
      show ?thesis
      proof (cases "is_descriptor j")
        case False
        with Inr True Some show ?thesis by (intro not_dict [of g j]) simp_all
      next
        case d: True
        then obtain kvs where j: "j = JObject kvs"
          by (cases j) (simp_all add: is_descriptor_def)
        show ?thesis
        proof (cases "map_of kvs ''rev''")
          case None
          with Inr Some j show ?thesis by (intro no_rev [of g kvs]) simp_all
        next
          case v: (Some v)
          show ?thesis
          proof (cases "py_truthy v")
            case True
            with Inr \<open>status_code g = 200\<close> Some j v show ?thesis
              by (intro with_rev [of g kvs v]) simp_all
          next
            case False
            with Inr Some j v show ?thesis by (intro no_rev [of g kvs]) simp_all
          qed
        qed
      qed
    qed
  qed
qed

subsection \<open>The loop of get_flow_status\<close>

lemma for_each_ok:
  "\<forall>x\<in>set xs. fst (f x) = Inr () \<Longrightarrow>
   for_each f xs = (Inr (), concat (map (\<lambda>x. snd (f x)) xs))"
proof (induction xs)
  case Nil
  then show ?case by (simp add: ret_def)
next
  case (Cons x xs)
  then obtain t where "f x = (Inr (), t)"
    by (cases "f x") simp
  with Cons show ?case
    by (simp add: bind_io_def)
qed

lemma for_each_fail:
  assumes "\<forall>x\<in>set pre. fst (f x) = Inr ()" and "f x = (Inl e, t)"
  shows "for_each f (pre @ x # post) = (Inl e, concat (map (\<lambda>x. snd (f x)) pre) @ t)"
  using assms(1)
proof (induction pre)
  case Nil
  with assms(2) show ?case by (simp add: bind_io_def)
next
  case (Cons y pre)
  then obtain t' where "f y = (Inr (), t')"
    by (cases "f y") simp
  with Cons show ?case
    by (simp add: bind_io_def)
qed

lemma print_node_ok:
  "is_descriptor n \<Longrightarrow> \<not> lacks_type n \<Longrightarrow> print_node n = (Inr (), spec_node_lines n)"
  by (cases n)
     (auto simp add: is_descriptor_def lacks_type_def print_node_def spec_node_lines_def
        print_def emit_def ret_def split: option.splits)

lemma print_node_lacks_type:
  "lacks_type n \<Longrightarrow> print_node n = (Inl (KeyError ''type''), [])"
  by (cases n)
     (auto simp add: lacks_type_def print_node_def raise_def split: option.splits)

lemma status_try_list:
  assumes "status_code r = 200" and "json_body r = Some (JObject kvs)"
    and "(case map_of kvs ''flows'' of None \<Rightarrow> JArray [] | Some v \<Rightarrow> v) = JArray flows"
  shows "status_try (Inr r) =
     (case for_each print_node flows of
        (Inl e, t) \<Rightarrow>
          (Inl e, [HttpGet ''http://localhost:1880/flows'',
                   Print [Lit ''Number of nodes: '', StrInt (int (length flows))]] @ t)
      | (Inr u, t) \<Rightarrow>
          (Inr True, [HttpGet ''http://localhost:1880/flows'',
                      Print [Lit ''Number of nodes: '', StrInt (int (length flows))]] @ t))"
  using assms
  by (simp add: status_try_def http_defs io_defs py_get_def py_len_def py_iter_def
      split: prod.split sum.split)

subsection \<open>get_flow_status, by what its try block comes to\<close>

lemma status_try_get_error:
  "status_try (Inl e) = (Inl e, [HttpGet ''http://localhost:1880/flows''])"
  by (simp add: status_try_def http_defs io_defs)

lemma status_try_not_200:
  "status_code r \<noteq> 200 \<Longrightarrow>
   status_try (Inr r) =
     (Inr False, [HttpGet ''http://localhost:1880/flows'',
                  Print [Lit ''Failed to get flows: '', StrInt (status_code r)]])"
  by (simp add: status_try_def http_defs io_defs)

lemma get_flow_status_handler:
  "get_flow_status g =
     (case status_try g of
        (Inl e, t) \<Rightarrow> (Inr False, t @ [Print [Lit ''Error getting flow status: '', StrExc e]])
      | (Inr b, t) \<Rightarrow> (Inr b, t))"
  by (simp add: get_flow_status_def io_defs split: prod.split sum.split)

lemma fst_bind_io:
  "fst (bind_io m f) = (case fst m of Inl e \<Rightarrow> Inl e | Inr x \<Rightarrow> fst (f x))"
  by (cases m) (simp add: bind_io_def split: sum.split prod.split)

lemma for_each_completes:
  "fst (for_each f xs) = Inr () \<longleftrightarrow> (\<forall>x\<in>set xs. fst (f x) = Inr ())"
proof (induction xs)
  case Nil
  show ?case by (simp add: ret_def)
next
  case (Cons x xs)
  then show ?case
    by (cases "fst (f x)") (simp_all add: fst_bind_io)
qed

lemma status_try_200_result:
  assumes "status_code r = 200"
  shows "fst (status_try (Inr r)) =
     (case json_body r of
        None \<Rightarrow> Inl JSONDecodeError
      | Some j \<Rightarrow>
          (case fst (py_get j ''flows'' (JArray [])) of
             Inl e \<Rightarrow> Inl e
           | Inr flows \<Rightarrow>
               (case fst (py_len flows) of
                  Inl e \<Rightarrow> Inl e
                | Inr n \<Rightarrow>
                    (case fst (py_iter flows) of
                       Inl e \<Rightarrow> Inl e
                     | Inr items \<Rightarrow>
                         (case fst (for_each print_node items) of
                            Inl e \<Rightarrow> Inl e
                          | Inr u \<Rightarrow> Inr True)))))"
  using assms
  by (simp add: status_try_def fst_bind_io requests_get_def response_json_def
      print_def emit_def ret_def raise_def
      split: option.split cong: sum.case_cong)

lemma status_try_200_not_False:
  assumes "status_code r = 200"
  shows "fst (status_try (Inr r)) \<noteq> Inr False"
  unfolding status_try_200_result [OF assms]
  by (simp split: option.split sum.split)

lemma status_try_200_True:
  assumes "status_code r = 200"
  shows "fst (status_try (Inr r)) = Inr True \<longleftrightarrow>
     (\<exists>j flows n items. json_body r = Some j
        \<and> fst (py_get j ''flows'' (JArray [])) = Inr flows
        \<and> fst (py_len flows) = Inr n
        \<and> fst (py_iter flows) = Inr items
        \<and> (\<forall>x\<in>set items. fst (print_node x) = Inr ()))"
proof -
  have loop: "(case fst (for_each print_node items) of Inl e \<Rightarrow> Inl e | Inr u \<Rightarrow> Inr True) = Inr True
      \<longleftrightarrow> (\<forall>x\<in>set items. fst (print_node x) = Inr ())" for items
    using for_each_completes [of print_node items]
    by (cases "fst (for_each print_node items)") auto
  show ?thesis
    unfolding status_try_200_result [OF assms]
    by (auto simp add: loop split: option.split sum.split)
qed


lemma get_flow_status_fst:
  "fst (get_flow_status g) = (case fst (status_try g) of Inl e \<Rightarrow> Inr False | Inr b \<Rightarrow> Inr b)"
  by (cases "status_try g") (simp add: get_flow_status_handler split: sum.split)

subsection \<open>Traces of the two operations and of the entry point\<close>

lemma main_unfold:
  "main file get_outcome post_outcome status_outcome =
     (case deploy_flow file get_outcome post_outcome of
        (Inl e, t) \<Rightarrow> (Inl e, Print [Lit ''Deploying test flow to Node-RED...''] # t)
      | (Inr deployed, t) \<Rightarrow>
          if deployed
          then (Inr (),
                Print [Lit ''Deploying test flow to Node-RED...''] # t
                @ [Print [Lit ''Waiting for flow to initialize...''], Sleep 5,
                   Print [Lit ''Checking flow status...'']]
                @ snd (get_flow_status status_outcome)
                @ [Print [Lit ''\<newline>Flow deployed successfully! You can now view the results in Node-RED's debug panel.''],
                   Print [Lit ''Access Node-RED at: http://localhost:1880''],
                   Print [Lit ''Make sure to click the 'Deploy' button in the Node-RED UI to activate the flow.'']])
          else (Inr (),
                Print [Lit ''Deploying test flow to Node-RED...''] # t
                @ [Print [Lit ''Failed to deploy flow.'']]))"
proof -
  obtain x t where st: "status_try status_outcome = (x, t)"
    by (cases "status_try status_outcome")
  then have "\<exists>b t'. get_flow_status status_outcome = (Inr b, t')"
    by (cases x) (auto simp add: get_flow_status_handler)
  then obtain b t' where s: "get_flow_status status_outcome = (Inr b, t')"
    by blast
  show ?thesis
    by (simp add: main_def s io_defs sleep_def split: prod.split sum.split)
qed

lemma snd_bind_io:
  "snd (bind_io m f) = snd m @ (case fst m of Inl e \<Rightarrow> [] | Inr x \<Rightarrow> snd (f x))"
  by (cases m) (simp add: bind_io_def split: sum.split prod.split)

lemma snd_try_except:
  "snd (try_except m h) = snd m @ (case fst m of Inl e \<Rightarrow> snd (h e) | Inr x \<Rightarrow> [])"
  by (cases m) (simp add: try_except_def split: sum.split prod.split)

lemma sleeps_append: "sleeps (s @ t) = sleeps s @ sleeps t"
  by (simp add: sleeps_def)

lemma opened_append: "opened (s @ t) = opened s @ opened t"
  by (simp add: opened_def)

lemma gets_append: "gets (s @ t) = gets s @ gets t"
  by (simp add: gets_def)

lemmas trace_simps =
  snd_bind_io snd_try_except sleeps_append opened_append gets_append

lemma print_node_quiet:
  "sleeps (snd (print_node n)) = [] \<and> opened (snd (print_node n)) = []
   \<and> gets (snd (print_node n)) = []"
  by (cases n)
     (simp_all add: print_node_def print_def emit_def ret_def raise_def
        sleeps_def opened_def gets_def split: option.split)

lemma for_each_quiet:
  "sleeps (snd (for_each print_node xs)) = [] \<and> opened (snd (for_each print_node xs)) = []
   \<and> gets (snd (for_each print_node xs)) = []"
proof (induction xs)
  case Nil
  show ?case by (simp add: ret_def sleeps_def opened_def gets_def)
next
  case (Cons x xs)
  with print_node_quiet [of x] show ?case
    by (simp add: trace_simps sleeps_def opened_def gets_def split: sum.split)
qed


lemma trace_leaves:
  "sleeps [] = []" "opened [] = []" "gets [] = []"
  "sleeps (Print l # t) = sleeps t" "opened (Print l # t) = opened t" "gets (Print l # t) = gets t"
  "sleeps (HttpGet u # t) = sleeps t" "opened (HttpGet u # t) = opened t"
  "gets (HttpGet u # t) = u # gets t"
  "sleeps (HttpPost u h b # t) = sleeps t" "opened (HttpPost u h b # t) = opened t"
  "gets (HttpPost u h b # t) = gets t"
  "sleeps (OpenRead f # t) = sleeps t" "opened (OpenRead f # t) = f # opened t"
  "gets (OpenRead f # t) = gets t"
  "sleeps (Sleep n # t) = n # sleeps t" "opened (Sleep n # t) = opened t"
  "gets (Sleep n # t) = gets t"
  by (simp_all add: sleeps_def opened_def gets_def)

lemma status_try_quiet:
  "sleeps (snd (status_try g)) = [] \<and> opened (snd (status_try g)) = []
   \<and> gets (snd (status_try g)) = [''http://localhost:1880/flows'']"
proof (cases g)
  case (Inl e)
  then show ?thesis
    by (simp add: status_try_get_error trace_leaves)
next
  case (Inr r)
  show ?thesis
  proof (cases "status_code r = 200")
    case False
    with Inr show ?thesis
      by (simp add: status_try_not_200 trace_leaves)
  next
    case True
    have prim: "snd (py_get j k d) = []" "snd (py_len j) = []" "snd (py_iter j) = []"
      "snd (response_json r') = []" for j k d r'
      by (simp_all add: py_get_def py_len_def py_iter_def response_json_def ret_def raise_def
          split: json.split option.split)
    have "snd (status_try (Inr r)) =
        HttpGet ''http://localhost:1880/flows'' #
        (case fst (response_json r) of Inl e \<Rightarrow> [] | Inr flow_data \<Rightarrow>
         (case fst (py_get flow_data ''flows'' (JArray [])) of Inl e \<Rightarrow> [] | Inr flows \<Rightarrow>
          (case fst (py_len flows) of Inl e \<Rightarrow> [] | Inr n \<Rightarrow>
            Print [Lit ''Number of nodes: '', StrInt (int n)] #
            (case fst (py_iter flows) of Inl e \<Rightarrow> [] | Inr items \<Rightarrow>
               snd (for_each print_node items)))))"
      using True
      by (simp add: status_try_def snd_bind_io prim requests_get_def nodered_url_def
          print_def emit_def ret_def cong: sum.case_cong)
    then show ?thesis
      unfolding Inr
      by (simp add: trace_leaves for_each_quiet split: sum.split)
  qed
qed


lemma get_flow_status_quiet:
  "sleeps (snd (get_flow_status g)) = [] \<and> opened (snd (get_flow_status g)) = []
   \<and> gets (snd (get_flow_status g)) = [''http://localhost:1880/flows'']"
proof (cases "status_try g")
  case (Pair x t)
  with status_try_quiet [of g] show ?thesis
    by (cases x)
       (simp_all add: get_flow_status_handler sleeps_append opened_append gets_append
          trace_leaves)
qed

lemma deploy_flow_quiet:
  "sleeps (snd (deploy_flow file get_outcome post_outcome)) = []
   \<and> opened (snd (deploy_flow file get_outcome post_outcome)) = [''test-flow.json'']"
proof (cases "file")
  case (Inl e)
  then show ?thesis
    by (simp add: deploy_flow_def load_flow_file_def bind_io_def trace_leaves)
next
  case (Inr nodes)
  show ?thesis
  proof (cases get_outcome rule: get_outcome_cases)
    case (failed e)
    with Inr show ?thesis
      by (simp add: deploy_flow_get_error trace_leaves)
  next
    case (unparsed g)
    with Inr show ?thesis
      by (simp add: deploy_flow_get_unparsed trace_leaves)
  next
    case (not_dict g j)
    with Inr show ?thesis
      by (simp add: deploy_flow_get_not_dict trace_leaves)
  next
    case (no_rev g kvs)
    show ?thesis
      unfolding Inr no_rev(1) deploy_flow_no_rev [OF no_rev(2)]
      by (simp add: trace_leaves split: sum.split)
  next
    case (with_rev g kvs v)
    show ?thesis
      unfolding Inr with_rev(1) deploy_flow_with_rev [OF with_rev(2-5)]
      by (simp add: trace_leaves split: sum.split)
  qed
qed

section \<open>Properties of deploy_flow\<close>

text \<open>
  Claim C1, at the inputs where the code departs from it. The flow file is opened and
  parsed before the \<^verbatim>\<open>try\<close> block is entered, so when the file is missing, unreadable
  or malformed, the exception \<open>e\<close> of the read leaves \<^verbatim>\<open>deploy_flow\<close>: the call does not
  return false, nothing is printed and no request is issued.
\<close>

theorem deploy_flow_file_error_propagates:
  "deploy_flow (Inl e) get_outcome post_outcome = (Inl e, [OpenRead ''test-flow.json''])"
  by (simp add: deploy_flow_def load_flow_file_def bind_io_def)

text \<open>
  Claim C2. For a flow file that parses to \<open>nodes\<close>: when the GET returns status 200
  with a JSON object whose \<^verbatim>\<open>rev\<close> is \<^verbatim>\<open>"abc"\<close>, and the POST that follows returns
  status 200, \<^verbatim>\<open>deploy_flow\<close> returns true, and the one POST it issues carries the JSON
  body \<^verbatim>\<open>{"flows": nodes, "rev": "abc"}\<close>.
\<close>

theorem deploy_flow_rev_abc:
  assumes "status_code g = 200"
    and "json_body g = Some (JObject kvs)"
    and "map_of kvs ''rev'' = Some (JString ''abc'')"
    and "post_outcome (JObject [(''flows'', nodes), (''rev'', JString ''abc'')]) = Inr p"
    and "status_code p = 200"
  shows "deploy_flow (Inr nodes) (Inr g) post_outcome =
           (Inr True,
            [OpenRead ''test-flow.json'',
             HttpGet ''http://localhost:1880/flows'',
             HttpPost ''http://localhost:1880/flows'' [(''Content-Type'', ''application/json'')]
               (JObject [(''flows'', nodes), (''rev'', JString ''abc'')]),
             Print [Lit ''Flow deployed successfully!'']])"
proof -
  have "py_truthy (JString ''abc'')"
    by (simp add: py_truthy_def)
  from deploy_flow_with_rev [OF assms(1-3) this, of nodes post_outcome] assms(4,5)
  show ?thesis by simp
qed

theorem deploy_flow_rev_abc_witness:
  \<open>deploy_flow
     (Inr (JArray [JObject [(''id'', JString ''n1''), (''type'', JString ''inject'')]]))
     (Inr \<lparr>status_code = 200, body_text = ''{"rev": "abc", "flows": []}'',
           json_body = Some (JObject [(''rev'', JString ''abc''), (''flows'', JArray [])])\<rparr>)
     (\<lambda>body. Inr \<lparr>status_code = 200, body_text = ''{"rev": "abd"}'',
                  json_body = Some (JObject [(''rev'', JString ''abd'')])\<rparr>) =
   (Inr True,
    [OpenRead ''test-flow.json'',
     HttpGet ''http://localhost:1880/flows'',
     HttpPost ''http://localhost:1880/flows'' [(''Content-Type'', ''application/json'')]
       (JObject [(''flows'', JArray [JObject [(''id'', JString ''n1''), (''type'', JString ''inject'')]]),
                 (''rev'', JString ''abc'')]),
     Print [Lit ''Flow deployed successfully!'']])\<close>
  by (rule deploy_flow_rev_abc
        [where kvs = "[(''rev'', JString ''abc''), (''flows'', JArray [])]"
           and p = \<open>\<lparr>status_code = 200, body_text = ''{"rev": "abd"}'',
                     json_body = Some (JObject [(''rev'', JString ''abd'')])\<rparr>\<close>])
     simp_all

text \<open>
  Claim C3. For a flow file that parses to \<open>nodes\<close>: when the GET returns a status
  other than 200, \<^verbatim>\<open>deploy_flow\<close> goes on. Its first three actions are the read of the
  file, the GET and the POST; the POST is the only one it issues, and its body is exactly
  \<^verbatim>\<open>{"flows": nodes}\<close>, which has no \<^verbatim>\<open>rev\<close> key.
\<close>

theorem deploy_flow_get_not_200:
  assumes "status_code g \<noteq> 200"
  shows "take 3 (snd (deploy_flow (Inr nodes) (Inr g) post_outcome)) =
           [OpenRead ''test-flow.json'',
            HttpGet ''http://localhost:1880/flows'',
            HttpPost ''http://localhost:1880/flows'' [(''Content-Type'', ''application/json'')]
              (JObject [(''flows'', nodes)])]
         \<and> post_bodies (snd (deploy_flow (Inr nodes) (Inr g) post_outcome)) =
             [JObject [(''flows'', nodes)]]
         \<and> \<not> has_key (JObject [(''flows'', nodes)]) ''rev''"
proof -
  from assms have "status_code g \<noteq> 200 \<or>
      (json_body g = Some (JObject []) \<and>
       (case map_of [] ''rev'' of None \<Rightarrow> True | Some v \<Rightarrow> \<not> py_truthy v))"
    by simp
  note eq = deploy_flow_no_rev [OF this, of nodes post_outcome]
  show ?thesis
    unfolding eq
    by (simp add: post_bodies_def has_key_def split: sum.split)
qed

theorem deploy_flow_get_not_200_witness:
  "take 3 (snd (deploy_flow (Inr (JArray []))
      (Inr \<lparr>status_code = 503, body_text = ''Service Unavailable'', json_body = None\<rparr>)
      (\<lambda>body. Inl (RequestException ''ConnectionError'')))) =
     [OpenRead ''test-flow.json'',
      HttpGet ''http://localhost:1880/flows'',
      HttpPost ''http://localhost:1880/flows'' [(''Content-Type'', ''application/json'')]
        (JObject [(''flows'', JArray [])])]"
  using deploy_flow_get_not_200
    [where g = "\<lparr>status_code = 503, body_text = ''Service Unavailable'', json_body = None\<rparr>"
       and nodes = "JArray []"
       and post_outcome = "\<lambda>body. Inl (RequestException ''ConnectionError'')"]
  by simp

text \<open>
  Claim C4. For a flow file that parses to \<open>nodes\<close>: when \<^verbatim>\<open>deploy_flow\<close> issues its
  POST (with the body \<open>body\<close>) and the POST returns a response \<open>p\<close> with a status
  other than 200, \<^verbatim>\<open>deploy_flow\<close> returns false, no exception leaves it, and the last
  two lines it prints are the status code of \<open>p\<close> and the body of \<open>p\<close>.
\<close>

theorem deploy_flow_post_not_200:
  assumes "body \<in> set (post_bodies (snd (deploy_flow (Inr nodes) get_outcome post_outcome)))"
    and "post_outcome body = Inr p"
    and "status_code p \<noteq> 200"
  shows "\<exists>t. deploy_flow (Inr nodes) get_outcome post_outcome =
           (Inr False,
            t @ [Print [Lit ''Failed to deploy flow: '', StrInt (status_code p)],
                 Print [Lit (body_text p)]])"
proof (cases get_outcome rule: get_outcome_cases)
  case (failed e)
  with assms(1) show ?thesis
    by (simp add: deploy_flow_get_error post_bodies_def)
next
  case (unparsed g)
  with assms(1) show ?thesis
    by (simp add: deploy_flow_get_unparsed post_bodies_def)
next
  case (not_dict g j)
  with assms(1) show ?thesis
    by (simp add: deploy_flow_get_not_dict post_bodies_def)
next
  case (no_rev g kvs)
  note eq = deploy_flow_no_rev [OF no_rev(2), of nodes post_outcome]
  from assms(1) have "body = JObject [(''flows'', nodes)]"
    unfolding no_rev(1) eq
    by (simp add: post_bodies_def split: sum.splits if_splits)
  with assms(2,3) show ?thesis
    unfolding no_rev(1) eq
    by simp
next
  case (with_rev g kvs v)
  note eq = deploy_flow_with_rev [OF with_rev(2-5), of nodes post_outcome]
  from assms(1) have "body = JObject [(''flows'', nodes), (''rev'', v)]"
    unfolding with_rev(1) eq
    by (simp add: post_bodies_def split: sum.splits if_splits)
  with assms(2,3) show ?thesis
    unfolding with_rev(1) eq
    by simp
qed

theorem deploy_flow_post_not_200_witness:
  "\<exists>t. deploy_flow (Inr (JArray []))
      (Inr \<lparr>status_code = 404, body_text = ''Not Found'', json_body = None\<rparr>)
      (\<lambda>body. Inr \<lparr>status_code = 500, body_text = ''Internal Server Error'', json_body = None\<rparr>) =
     (Inr False,
      t @ [Print [Lit ''Failed to deploy flow: '', StrInt 500],
           Print [Lit ''Internal Server Error'']])"
proof -
  let ?get = "Inr \<lparr>status_code = 404, body_text = ''Not Found'', json_body = None\<rparr>"
  let ?p = "\<lparr>status_code = 500, body_text = ''Internal Server Error'', json_body = None\<rparr>"
  have 1: "JObject [(''flows'', JArray [])]
      \<in> set (post_bodies (snd (deploy_flow (Inr (JArray [])) ?get (\<lambda>body. Inr ?p))))"
    by (simp add: deploy_defs py_truthy_def post_bodies_def)
  have 2: "(\<lambda>body. Inr ?p) (JObject [(''flows'', JArray [])]) = Inr ?p"
    by simp
  have 3: "status_code ?p \<noteq> 200"
    by simp
  from deploy_flow_post_not_200 [OF 1 2 3] show ?thesis
    by simp
qed

text \<open>
  Claim C8. For a flow file that parses to \<open>nodes\<close>: \<^verbatim>\<open>deploy_flow\<close> issues a POST
  whose body has the key \<^verbatim>\<open>rev\<close> if and only if the GET returned status 200, its body
  parsed to a JSON object, and the \<^verbatim>\<open>rev\<close> field of that object is present and truthy.
  In particular, when the GET returned status 200 with a JSON object whose \<^verbatim>\<open>rev\<close> is
  absent or falsy (the empty string is falsy), the body of the POST is
  \<^verbatim>\<open>{"flows": nodes}\<close> in both cases.
\<close>

theorem deploy_flow_rev_key:
  "((\<exists>body \<in> set (post_bodies (snd (deploy_flow (Inr nodes) get_outcome post_outcome))).
       has_key body ''rev'')
    \<longleftrightarrow> (\<exists>g kvs v. get_outcome = Inr g \<and> status_code g = 200
          \<and> json_body g = Some (JObject kvs) \<and> map_of kvs ''rev'' = Some v \<and> py_truthy v))
   \<and> \<not> py_truthy (JString '''')
   \<and> (\<forall>g kvs. get_outcome = Inr g \<and> status_code g = 200 \<and> json_body g = Some (JObject kvs)
          \<and> (map_of kvs ''rev'' = None \<or> (\<exists>v. map_of kvs ''rev'' = Some v \<and> \<not> py_truthy v))
        \<longrightarrow> post_bodies (snd (deploy_flow (Inr nodes) get_outcome post_outcome)) =
              [JObject [(''flows'', nodes)]])"
proof (intro conjI)
  show "\<not> py_truthy (JString '''')"
    by (simp add: py_truthy_def)
next
  show "\<forall>g kvs. get_outcome = Inr g \<and> status_code g = 200 \<and> json_body g = Some (JObject kvs)
          \<and> (map_of kvs ''rev'' = None \<or> (\<exists>v. map_of kvs ''rev'' = Some v \<and> \<not> py_truthy v))
        \<longrightarrow> post_bodies (snd (deploy_flow (Inr nodes) get_outcome post_outcome)) =
              [JObject [(''flows'', nodes)]]"
  proof (intro allI impI)
    fix g kvs
    assume a: "get_outcome = Inr g \<and> status_code g = 200 \<and> json_body g = Some (JObject kvs)
          \<and> (map_of kvs ''rev'' = None \<or> (\<exists>v. map_of kvs ''rev'' = Some v \<and> \<not> py_truthy v))"
    then have "status_code g \<noteq> 200 \<or>
        (json_body g = Some (JObject kvs) \<and>
         (case map_of kvs ''rev'' of None \<Rightarrow> True | Some v \<Rightarrow> \<not> py_truthy v))"
      by auto
    note eq = deploy_flow_no_rev [OF this, of nodes post_outcome]
    from a have g: "get_outcome = Inr g" by simp
    show "post_bodies (snd (deploy_flow (Inr nodes) get_outcome post_outcome)) =
              [JObject [(''flows'', nodes)]]"
      unfolding g eq
      by (simp add: post_bodies_def split: sum.split)
  qed
next
  show "(\<exists>body \<in> set (post_bodies (snd (deploy_flow (Inr nodes) get_outcome post_outcome))).
       has_key body ''rev'')
    \<longleftrightarrow> (\<exists>g kvs v. get_outcome = Inr g \<and> status_code g = 200
          \<and> json_body g = Some (JObject kvs) \<and> map_of kvs ''rev'' = Some v \<and> py_truthy v)"
  proof (cases get_outcome rule: get_outcome_cases)
    case (failed e)
    then show ?thesis
      by (simp add: deploy_flow_get_error post_bodies_def)
  next
    case (unparsed g)
    then show ?thesis
      by (simp add: deploy_flow_get_unparsed post_bodies_def)
  next
    case (not_dict g j)
    then show ?thesis
      by (auto simp add: deploy_flow_get_not_dict post_bodies_def is_descriptor_def)
  next
    case (no_rev g kvs)
    note eq = deploy_flow_no_rev [OF no_rev(2), of nodes post_outcome]
    have "post_bodies (snd (deploy_flow (Inr nodes) get_outcome post_outcome)) =
            [JObject [(''flows'', nodes)]]"
      unfolding no_rev(1) eq
      by (simp add: post_bodies_def split: sum.split)
    moreover have "\<not> (\<exists>kvs' v. status_code g = 200 \<and> json_body g = Some (JObject kvs')
        \<and> map_of kvs' ''rev'' = Some v \<and> py_truthy v)"
      using no_rev(2) by auto
    ultimately show ?thesis
      using no_rev(1) by (simp add: has_key_def)
  next
    case (with_rev g kvs v)
    note eq = deploy_flow_with_rev [OF with_rev(2-5), of nodes post_outcome]
    have "post_bodies (snd (deploy_flow (Inr nodes) get_outcome post_outcome)) =
            [JObject [(''flows'', nodes), (''rev'', v)]]"
      unfolding with_rev(1) eq
      by (simp add: post_bodies_def split: sum.split)
    with with_rev show ?thesis
      by (simp add: has_key_def)
  qed
qed

theorem deploy_flow_rev_key_witness:
  \<open>(\<exists>body \<in> set (post_bodies (snd (deploy_flow (Inr (JArray []))
        (Inr \<lparr>status_code = 200, body_text = ''{"rev": "r1"}'',
              json_body = Some (JObject [(''rev'', JString ''r1'')])\<rparr>)
        (\<lambda>body. Inr \<lparr>status_code = 200, body_text = '''', json_body = None\<rparr>)))).
      has_key body ''rev'')
   \<and> post_bodies (snd (deploy_flow (Inr (JArray []))
        (Inr \<lparr>status_code = 200, body_text = ''{"rev": ""}'',
              json_body = Some (JObject [(''rev'', JString '''')])\<rparr>)
        (\<lambda>body. Inr \<lparr>status_code = 200, body_text = '''', json_body = None\<rparr>))) =
      [JObject [(''flows'', JArray [])]]\<close>
proof
  let ?g = \<open>\<lparr>status_code = 200, body_text = ''{"rev": "r1"}'',
              json_body = Some (JObject [(''rev'', JString ''r1'')])\<rparr>\<close>
  let ?post = "\<lambda>body::json. Inr \<lparr>status_code = 200, body_text = '''', json_body = None\<rparr> :: exc + response"
  have "\<exists>g kvs v. (Inr ?g :: exc + response) = Inr g \<and> status_code g = 200
          \<and> json_body g = Some (JObject kvs) \<and> map_of kvs ''rev'' = Some v \<and> py_truthy v"
    by (intro exI [of _ ?g] exI [of _ "[(''rev'', JString ''r1'')]"] exI [of _ "JString ''r1''"])
       (simp add: py_truthy_def)
  with deploy_flow_rev_key [of "JArray []" "Inr ?g" ?post]
  show "\<exists>body \<in> set (post_bodies (snd (deploy_flow (Inr (JArray [])) (Inr ?g) ?post))).
      has_key body ''rev''"
    by blast
next
  let ?g = \<open>\<lparr>status_code = 200, body_text = ''{"rev": ""}'',
              json_body = Some (JObject [(''rev'', JString '''')])\<rparr>\<close>
  let ?post = "\<lambda>body::json. Inr \<lparr>status_code = 200, body_text = '''', json_body = None\<rparr> :: exc + response"
  from deploy_flow_rev_key [of "JArray []" "Inr ?g" ?post]
  have "\<not> py_truthy (JString '''')"
    and imp: "\<forall>g kvs. (Inr ?g :: exc + response) = Inr g \<and> status_code g = 200
          \<and> json_body g = Some (JObject kvs)
          \<and> (map_of kvs ''rev'' = None \<or> (\<exists>v. map_of kvs ''rev'' = Some v \<and> \<not> py_truthy v))
        \<longrightarrow> post_bodies (snd (deploy_flow (Inr (JArray [])) (Inr ?g) ?post)) =
              [JObject [(''flows'', JArray [])]]"
    by blast+
  then have "(Inr ?g :: exc + response) = Inr ?g \<and> status_code ?g = 200
          \<and> json_body ?g = Some (JObject [(''rev'', JString '''')])
          \<and> (map_of [(''rev'', JString '''')] ''rev'' = None
              \<or> (\<exists>v. map_of [(''rev'', JString '''')] ''rev'' = Some v \<and> \<not> py_truthy v))"
    by simp
  with imp show "post_bodies (snd (deploy_flow (Inr (JArray [])) (Inr ?g) ?post)) =
      [JObject [(''flows'', JArray [])]]"
    by blast
qed

text \<open>
  Claim C9. For a flow file that parses to \<open>nodes\<close>: when the GET returns status 200
  with a body that is not JSON, the exception of \<^verbatim>\<open>response.json()\<close> ends the deploy.
  \<^verbatim>\<open>deploy_flow\<close> prints the error and returns false, and it issues no POST.
\<close>

theorem deploy_flow_get_body_not_json:
  assumes "status_code g = 200" and "json_body g = None"
  shows "deploy_flow (Inr nodes) (Inr g) post_outcome =
           (Inr False,
            [OpenRead ''test-flow.json'',
             HttpGet ''http://localhost:1880/flows'',
             Print [Lit ''Error deploying flow: '', StrExc JSONDecodeError]])
         \<and> post_bodies (snd (deploy_flow (Inr nodes) (Inr g) post_outcome)) = []"
  using assms by (simp add: deploy_flow_get_unparsed post_bodies_def)

theorem deploy_flow_get_body_not_json_witness:
  "deploy_flow (Inr (JArray []))
     (Inr \<lparr>status_code = 200, body_text = ''<html>Node-RED</html>'', json_body = None\<rparr>)
     (\<lambda>body. Inr \<lparr>status_code = 200, body_text = '''', json_body = None\<rparr>) =
   (Inr False,
    [OpenRead ''test-flow.json'',
     HttpGet ''http://localhost:1880/flows'',
     Print [Lit ''Error deploying flow: '', StrExc JSONDecodeError]])"
  using deploy_flow_get_body_not_json
    [where g = "\<lparr>status_code = 200, body_text = ''<html>Node-RED</html>'', json_body = None\<rparr>"
       and nodes = "JArray []"
       and post_outcome = "\<lambda>body. Inr \<lparr>status_code = 200, body_text = '''', json_body = None\<rparr>"]
  by simp

section \<open>Properties of get_flow_status\<close>

text \<open>
  Claim C5, as stated, at an input where it fails. The GET returns status 200 with the
  JSON body \<^verbatim>\<open>[]\<close>, a list: \<^verbatim>\<open>flow_data.get\<close> raises, the handler prints the error,
  and \<^verbatim>\<open>get_flow_status\<close> returns false, not true.
\<close>

theorem get_flow_status_body_array:
  "get_flow_status (Inr \<lparr>status_code = 200, body_text = ''[]'', json_body = Some (JArray [])\<rparr>) =
     (Inr False,
      [HttpGet ''http://localhost:1880/flows'',
       Print [Lit ''Error getting flow status: '', StrExc (AttributeError ''list'' ''get'')]])"
  by (simp add: get_flow_status_def status_try_def http_defs io_defs py_get_def py_type_name_def)

text \<open>
  Claim C5, amended. When the GET returns status 200 with a JSON object whose
  \<^verbatim>\<open>flows\<close> field is absent (then \<open>flows\<close> is empty) or is a list \<open>flows\<close> of JSON
  objects, none of which has a name and no type, \<^verbatim>\<open>get_flow_status\<close> returns true and
  prints the length of \<open>flows\<close> as the node count and then, for each descriptor in
  order, the lines of the specification: a tab line with its label (\<^verbatim>\<open>"Unnamed"\<close>
  without one) when its type is \<^verbatim>\<open>"tab"\<close>, else a node line with its name and type when
  it has a name, else nothing.
\<close>

theorem get_flow_status_summary:
  assumes "status_code r = 200"
    and "json_body r = Some (JObject kvs)"
    and "map_of kvs ''flows'' = None \<and> flows = [] \<or> map_of kvs ''flows'' = Some (JArray flows)"
    and "\<forall>n\<in>set flows. is_descriptor n \<and> \<not> lacks_type n"
  shows "get_flow_status (Inr r) =
           (Inr True,
            [HttpGet ''http://localhost:1880/flows'',
             Print [Lit ''Number of nodes: '', StrInt (int (length flows))]]
            @ concat (map spec_node_lines flows))"
proof -
  from assms(3) have f: "(case map_of kvs ''flows'' of None \<Rightarrow> JArray [] | Some v \<Rightarrow> v) = JArray flows"
    by auto
  from assms(4) have ok: "\<forall>n\<in>set flows. fst (print_node n) = Inr ()"
    by (simp add: print_node_ok)
  from assms(4) have "map (\<lambda>n. snd (print_node n)) flows = map spec_node_lines flows"
    by (simp add: print_node_ok)
  with for_each_ok [OF ok]
  have "for_each print_node flows = (Inr (), concat (map spec_node_lines flows))"
    by simp
  then show ?thesis
    by (simp add: get_flow_status_def status_try_list [OF assms(1,2) f] try_except_def)
qed

text \<open>
  The example of the specification: for the two descriptors
  \<^verbatim>\<open>{"type": "tab", "label": "Main"}\<close> and \<^verbatim>\<open>{"type": "inject", "name": "trigger1"}\<close>
  the console shows a count of 2, a tab line for \<^verbatim>\<open>Main\<close> and the node line
  \<^verbatim>\<open>trigger1 (Type: inject)\<close>.
\<close>

theorem get_flow_status_summary_witness:
  \<open>get_flow_status
     (Inr \<lparr>status_code = 200,
           body_text = ''{"flows": [{"type": "tab", "label": "Main"}, {"type": "inject", "name": "trigger1"}]}'',
           json_body = Some (JObject [(''flows'', JArray
             [JObject [(''type'', JString ''tab''), (''label'', JString ''Main'')],
              JObject [(''type'', JString ''inject''), (''name'', JString ''trigger1'')]])])\<rparr>) =
     (Inr True,
      [HttpGet ''http://localhost:1880/flows'',
       Print [Lit ''Number of nodes: '', StrInt 2],
       Print [Lit ''Flow tab: '', StrJson (JString ''Main'')],
       Print [Lit ''Node: '', StrJson (JString ''trigger1''), Lit '' (Type: '',
              StrJson (JString ''inject''), Lit '')'']])
   \<and> console (snd (get_flow_status
     (Inr \<lparr>status_code = 200,
           body_text = ''{"flows": [{"type": "tab", "label": "Main"}, {"type": "inject", "name": "trigger1"}]}'',
           json_body = Some (JObject [(''flows'', JArray
             [JObject [(''type'', JString ''tab''), (''label'', JString ''Main'')],
              JObject [(''type'', JString ''inject''), (''name'', JString ''trigger1'')]])])\<rparr>))) =
     [Some ''Number of nodes: 2'', Some ''Flow tab: Main'',
      Some ''Node: trigger1 (Type: inject)'']\<close>
proof -
  let ?flows = "[JObject [(''type'', JString ''tab''), (''label'', JString ''Main'')],
                 JObject [(''type'', JString ''inject''), (''name'', JString ''trigger1'')]]"
  let ?kvs = "[(''flows'', JArray ?flows)]"
  let ?r = \<open>\<lparr>status_code = 200,
           body_text = ''{"flows": [{"type": "tab", "label": "Main"}, {"type": "inject", "name": "trigger1"}]}'',
           json_body = Some (JObject ?kvs)\<rparr>\<close>
  have 1: "status_code ?r = 200" and 2: "json_body ?r = Some (JObject ?kvs)"
    by simp_all
  have 3: "map_of ?kvs ''flows'' = None \<and> ?flows = [] \<or> map_of ?kvs ''flows'' = Some (JArray ?flows)"
    by simp
  have 4: "\<forall>n\<in>set ?flows. is_descriptor n \<and> \<not> lacks_type n"
    by (simp add: is_descriptor_def lacks_type_def)
  have eq: "get_flow_status (Inr ?r) =
     (Inr True,
      [HttpGet ''http://localhost:1880/flows'',
       Print [Lit ''Number of nodes: '', StrInt 2],
       Print [Lit ''Flow tab: '', StrJson (JString ''Main'')],
       Print [Lit ''Node: '', StrJson (JString ''trigger1''), Lit '' (Type: '',
              StrJson (JString ''inject''), Lit '')'']])"
    using get_flow_status_summary [OF 1 2 3 4]
    by (simp add: spec_node_lines_def)
  have "console (snd (get_flow_status (Inr ?r))) =
     [Some ''Number of nodes: 2'', Some ''Flow tab: Main'',
      Some ''Node: trigger1 (Type: inject)'']"
    unfolding eq
    by (simp add: console_def printed_def render_piece_def show_int_def show_nat.simps)
  with eq show ?thesis
    by (rule conjI)
qed

text \<open>
  Claim C6. No exception leaves \<^verbatim>\<open>get_flow_status\<close>: it returns true or false. It
  returns true exactly when the GET returned status 200 and no exception was raised in
  the \<^verbatim>\<open>try\<close> block, that is, when the body parsed, \<^verbatim>\<open>flow_data.get\<close>, \<^verbatim>\<open>len\<close> and the
  iteration went through and the loop body completed for every item; in every other run
  it returns false. A run on status 200 never ends in \<^verbatim>\<open>return False\<close>. On a GET with
  another status it prints the status code and returns false; when the GET itself raises,
  and on any exception \<open>e\<close> raised in the \<^verbatim>\<open>try\<close> block after the events \<open>t\<close>, it
  prints the message of \<open>e\<close> and returns false.
\<close>

theorem get_flow_status_total:
  "(fst (get_flow_status get_outcome) = Inr True \<or> fst (get_flow_status get_outcome) = Inr False)
   \<and> (fst (get_flow_status get_outcome) = Inr False \<longleftrightarrow> fst (status_try get_outcome) \<noteq> Inr True)
   \<and> (fst (status_try get_outcome) = Inr True \<longrightarrow>
        (\<exists>r. get_outcome = Inr r \<and> status_code r = 200))
   \<and> (\<forall>r. get_outcome = Inr r \<and> status_code r \<noteq> 200 \<longrightarrow>
        get_flow_status get_outcome =
          (Inr False,
           [HttpGet ''http://localhost:1880/flows'',
            Print [Lit ''Failed to get flows: '', StrInt (status_code r)]]))
   \<and> (\<forall>e t. status_try get_outcome = (Inl e, t) \<longrightarrow>
        get_flow_status get_outcome =
          (Inr False, t @ [Print [Lit ''Error getting flow status: '', StrExc e]]))
   \<and> (\<forall>e. get_outcome = Inl e \<longrightarrow>
        get_flow_status get_outcome =
          (Inr False,
           [HttpGet ''http://localhost:1880/flows'',
            Print [Lit ''Error getting flow status: '', StrExc e]]))
   \<and> (\<forall>r. get_outcome = Inr r \<and> status_code r = 200 \<longrightarrow>
        fst (status_try get_outcome) \<noteq> Inr False)
   \<and> (fst (get_flow_status get_outcome) = Inr True \<longleftrightarrow>
        (\<exists>r. get_outcome = Inr r \<and> status_code r = 200
           \<and> (\<forall>e. fst (status_try get_outcome) \<noteq> Inl e)))
   \<and> (\<forall>r. get_outcome = Inr r \<and> status_code r = 200 \<longrightarrow>
        (fst (get_flow_status get_outcome) = Inr True \<longleftrightarrow>
           (\<exists>j flows n items. json_body r = Some j
              \<and> fst (py_get j ''flows'' (JArray [])) = Inr flows
              \<and> fst (py_len flows) = Inr n
              \<and> fst (py_iter flows) = Inr items
              \<and> (\<forall>x\<in>set items. fst (print_node x) = Inr ()))))"
proof -
  note handler = get_flow_status_handler
  note not_200 = status_try_not_200
  note failed = status_try_get_error
  have c1: "fst (get_flow_status get_outcome) = Inr True \<or> fst (get_flow_status get_outcome) = Inr False"
    unfolding handler by (simp split: prod.split sum.split)
  have c2: "fst (get_flow_status get_outcome) = Inr False \<longleftrightarrow> fst (status_try get_outcome) \<noteq> Inr True"
    unfolding handler by (auto split: prod.split sum.split)
  have c3: "fst (status_try get_outcome) = Inr True \<longrightarrow>
        (\<exists>r. get_outcome = Inr r \<and> status_code r = 200)"
  proof (cases get_outcome)
    case (Inl e)
    then show ?thesis by (simp add: failed)
  next
    case (Inr r)
    then show ?thesis by (cases "status_code r = 200") (simp_all add: not_200)
  qed
  have c4: "\<forall>r. get_outcome = Inr r \<and> status_code r \<noteq> 200 \<longrightarrow>
        get_flow_status get_outcome =
          (Inr False,
           [HttpGet ''http://localhost:1880/flows'',
            Print [Lit ''Failed to get flows: '', StrInt (status_code r)]])"
    by (auto simp add: handler not_200)
  have c5: "\<forall>e t. status_try get_outcome = (Inl e, t) \<longrightarrow>
        get_flow_status get_outcome =
          (Inr False, t @ [Print [Lit ''Error getting flow status: '', StrExc e]])"
    by (simp add: handler)
  have c6: "\<forall>e. get_outcome = Inl e \<longrightarrow>
        get_flow_status get_outcome =
          (Inr False,
           [HttpGet ''http://localhost:1880/flows'',
            Print [Lit ''Error getting flow status: '', StrExc e]])"
    by (auto simp add: handler failed)
  have c7: "\<forall>r. get_outcome = Inr r \<and> status_code r = 200 \<longrightarrow>
        fst (status_try get_outcome) \<noteq> Inr False"
    by (auto simp add: status_try_200_not_False)
  have c8: "fst (get_flow_status get_outcome) = Inr True \<longleftrightarrow>
        (\<exists>r. get_outcome = Inr r \<and> status_code r = 200
           \<and> (\<forall>e. fst (status_try get_outcome) \<noteq> Inl e))"
  proof
    assume "fst (get_flow_status get_outcome) = Inr True"
    then have t: "fst (status_try get_outcome) = Inr True"
      by (simp add: get_flow_status_fst split: sum.splits)
    with c3 obtain r where "get_outcome = Inr r" "status_code r = 200"
      by blast
    with t show "\<exists>r. get_outcome = Inr r \<and> status_code r = 200
           \<and> (\<forall>e. fst (status_try get_outcome) \<noteq> Inl e)"
      by simp
  next
    assume "\<exists>r. get_outcome = Inr r \<and> status_code r = 200
           \<and> (\<forall>e. fst (status_try get_outcome) \<noteq> Inl e)"
    then obtain r where r: "get_outcome = Inr r" "status_code r = 200"
      and ne: "\<forall>e. fst (status_try get_outcome) \<noteq> Inl e"
      by blast
    from r c7 have "fst (status_try get_outcome) \<noteq> Inr False"
      by blast
    with ne have "fst (status_try get_outcome) = Inr True"
      by (cases "fst (status_try get_outcome)") auto
    then show "fst (get_flow_status get_outcome) = Inr True"
      by (simp add: get_flow_status_fst)
  qed
  have c9: "\<forall>r. get_outcome = Inr r \<and> status_code r = 200 \<longrightarrow>
        (fst (get_flow_status get_outcome) = Inr True \<longleftrightarrow>
           (\<exists>j flows n items. json_body r = Some j
              \<and> fst (py_get j ''flows'' (JArray [])) = Inr flows
              \<and> fst (py_len flows) = Inr n
              \<and> fst (py_iter flows) = Inr items
              \<and> (\<forall>x\<in>set items. fst (print_node x) = Inr ())))"
  proof (intro allI impI)
    fix r
    assume a: "get_outcome = Inr r \<and> status_code r = 200"
    have "fst (get_flow_status (Inr r)) = Inr True \<longleftrightarrow> fst (status_try (Inr r)) = Inr True"
      by (simp add: get_flow_status_fst split: sum.split)
    with a status_try_200_True [of r]
    show "fst (get_flow_status get_outcome) = Inr True \<longleftrightarrow>
           (\<exists>j flows n items. json_body r = Some j
              \<and> fst (py_get j ''flows'' (JArray [])) = Inr flows
              \<and> fst (py_len flows) = Inr n
              \<and> fst (py_iter flows) = Inr items
              \<and> (\<forall>x\<in>set items. fst (print_node x) = Inr ()))"
      by simp
  qed
  from c1 c2 c3 c4 c5 c6 c7 c8 c9 show ?thesis
    by (intro conjI)
qed

theorem get_flow_status_total_witness:
  "get_flow_status (Inr \<lparr>status_code = 404, body_text = ''Not Found'', json_body = None\<rparr>) =
     (Inr False,
      [HttpGet ''http://localhost:1880/flows'',
       Print [Lit ''Failed to get flows: '', StrInt 404]])
   \<and> get_flow_status (Inl (RequestException ''ConnectionError'')) =
     (Inr False,
      [HttpGet ''http://localhost:1880/flows'',
       Print [Lit ''Error getting flow status: '', StrExc (RequestException ''ConnectionError'')]])
   \<and> fst (get_flow_status
        (Inr \<lparr>status_code = 200, body_text = ''{}'', json_body = Some (JObject [])\<rparr>)) = Inr True
   \<and> fst (get_flow_status
        (Inr \<lparr>status_code = 200, body_text = ''<html>Node-RED</html>'', json_body = None\<rparr>)) =
       Inr False"
proof (intro conjI)
  let ?r = "\<lparr>status_code = 404, body_text = ''Not Found'', json_body = None\<rparr>"
  note t = get_flow_status_total [of "Inr ?r"]
  note c4 = t [THEN conjunct2, THEN conjunct2, THEN conjunct2, THEN conjunct1]
  have "(Inr ?r :: exc + response) = Inr ?r \<and> status_code ?r \<noteq> 200"
    by simp
  from c4 [THEN spec, THEN mp, OF this]
  show "get_flow_status (Inr ?r) =
     (Inr False,
      [HttpGet ''http://localhost:1880/flows'',
       Print [Lit ''Failed to get flows: '', StrInt 404]])"
    by simp
next
  let ?g = "Inl (RequestException ''ConnectionError'') :: exc + response"
  note t = get_flow_status_total [of ?g]
  note c6 = t [THEN conjunct2, THEN conjunct2, THEN conjunct2, THEN conjunct2, THEN conjunct2,
    THEN conjunct1]
  from c6 [THEN spec, THEN mp, OF refl]
  show "get_flow_status ?g =
     (Inr False,
      [HttpGet ''http://localhost:1880/flows'',
       Print [Lit ''Error getting flow status: '', StrExc (RequestException ''ConnectionError'')]])" .
next
  let ?r = "\<lparr>status_code = 200, body_text = ''{}'', json_body = Some (JObject [])\<rparr>"
  note t = get_flow_status_total [of "Inr ?r"]
  note c9 = t [THEN conjunct2, THEN conjunct2, THEN conjunct2, THEN conjunct2, THEN conjunct2,
    THEN conjunct2, THEN conjunct2, THEN conjunct2]
  have h: "(Inr ?r :: exc + response) = Inr ?r \<and> status_code ?r = 200"
    by simp
  have ex: "\<exists>j flows n items. json_body ?r = Some j
              \<and> fst (py_get j ''flows'' (JArray [])) = Inr flows
              \<and> fst (py_len flows) = Inr n
              \<and> fst (py_iter flows) = Inr items
              \<and> (\<forall>x\<in>set items. fst (print_node x) = Inr ())"
    by (intro exI [of _ "JObject []"] exI [of _ "JArray []"] exI [of _ 0] exI [of _ "[]"])
       (simp add: py_get_def py_len_def py_iter_def ret_def)
  from c9 [THEN spec, THEN mp, OF h, THEN iffD2, OF ex]
  show "fst (get_flow_status (Inr ?r)) = Inr True" .
next
  let ?r = "\<lparr>status_code = 200, body_text = ''<html>Node-RED</html>'', json_body = None\<rparr>"
  note t = get_flow_status_total [of "Inr ?r"]
  note c1 = t [THEN conjunct1]
  note c9 = t [THEN conjunct2, THEN conjunct2, THEN conjunct2, THEN conjunct2, THEN conjunct2,
    THEN conjunct2, THEN conjunct2, THEN conjunct2]
  have h: "(Inr ?r :: exc + response) = Inr ?r \<and> status_code ?r = 200"
    by simp
  have "fst (get_flow_status (Inr ?r)) \<noteq> Inr True"
  proof
    assume "fst (get_flow_status (Inr ?r)) = Inr True"
    from c9 [THEN spec, THEN mp, OF h, THEN iffD1, OF this]
    obtain j where "json_body ?r = Some j"
      by (elim exE conjE)
    then show False
      by simp
  qed
  with c1 show "fst (get_flow_status (Inr ?r)) = Inr False"
    by simp
qed

text \<open>
  Claim C10, as stated, at an input where it fails. The GET returns status 200 with the
  \<^verbatim>\<open>flows\<close> list \<^verbatim>\<open>[7, {"name": "n1"}]\<close>, which contains a descriptor with a name
  and no type. The loop stops one item earlier, at \<^verbatim>\<open>7\<close>: \<^verbatim>\<open>node.get\<close> raises an
  \<open>AttributeError\<close>, not a key-lookup error, and that is the error printed.
\<close>

theorem get_flow_status_item_not_object:
  \<open>fst (status_try (Inr \<lparr>status_code = 200, body_text = ''{"flows": [7, {"name": "n1"}]}'',
        json_body = Some (JObject [(''flows'', JArray [JInt 7, JObject [(''name'', JString ''n1'')]])])\<rparr>)) =
     Inl (AttributeError ''int'' ''get'')
   \<and> get_flow_status (Inr \<lparr>status_code = 200, body_text = ''{"flows": [7, {"name": "n1"}]}'',
        json_body = Some (JObject [(''flows'', JArray [JInt 7, JObject [(''name'', JString ''n1'')]])])\<rparr>) =
     (Inr False,
      [HttpGet ''http://localhost:1880/flows'',
       Print [Lit ''Number of nodes: '', StrInt 2],
       Print [Lit ''Error getting flow status: '', StrExc (AttributeError ''int'' ''get'')]])\<close>
  by (simp add: get_flow_status_def status_try_def http_defs io_defs py_get_def py_len_def
      py_iter_def print_node_def py_type_name_def)

text \<open>
  Claim C10, amended. When the GET returns status 200 with a JSON object whose
  \<^verbatim>\<open>flows\<close> field is a list that contains a descriptor with a name and no type, and
  every item of the list before the first such descriptor is a JSON object, the \<^verbatim>\<open>try\<close>
  block of \<^verbatim>\<open>get_flow_status\<close> ends with the \<open>KeyError\<close> of the key \<^verbatim>\<open>type\<close>.
  \<^verbatim>\<open>get_flow_status\<close> catches it, prints the error and returns false. The summary stops
  at that descriptor: the count and the lines of the items before it are printed,
  nothing of it or of those after it, whatever they are.
\<close>

theorem get_flow_status_missing_type:
  assumes "status_code r = 200"
    and "json_body r = Some (JObject kvs)"
    and "map_of kvs ''flows'' = Some (JArray flows)"
    and "\<exists>n\<in>set flows. lacks_type n"
    and "\<forall>n\<in>set (takeWhile (\<lambda>n. \<not> lacks_type n) flows). is_descriptor n"
  shows "fst (status_try (Inr r)) = Inl (KeyError ''type'')
       \<and> get_flow_status (Inr r) =
           (Inr False,
            [HttpGet ''http://localhost:1880/flows'',
             Print [Lit ''Number of nodes: '', StrInt (int (length flows))]]
            @ concat (map spec_node_lines (takeWhile (\<lambda>n. \<not> lacks_type n) flows))
            @ [Print [Lit ''Error getting flow status: '', StrExc (KeyError ''type'')]])"
proof -
  let ?pre = "takeWhile (\<lambda>n. \<not> lacks_type n) flows"
  let ?rest = "dropWhile (\<lambda>n. \<not> lacks_type n) flows"
  from assms(4) have "?rest \<noteq> []"
    by (simp add: dropWhile_eq_Nil_conv)
  then obtain x post where rest: "?rest = x # post"
    by (cases ?rest) simp_all
  then have x: "lacks_type x"
    using hd_dropWhile [of "\<lambda>n. \<not> lacks_type n" flows] by simp
  have split: "flows = ?pre @ x # post"
    using takeWhile_dropWhile_id [of "\<lambda>n. \<not> lacks_type n" flows] rest by simp
  have pre: "\<forall>n\<in>set ?pre. is_descriptor n \<and> \<not> lacks_type n"
    using assms(5) by (auto dest: set_takeWhileD)
  then have ok: "\<forall>n\<in>set ?pre. fst (print_node n) = Inr ()"
    by (simp add: print_node_ok)
  from pre have lines: "map (\<lambda>n. snd (print_node n)) ?pre = map spec_node_lines ?pre"
    by (simp add: print_node_ok)
  have "for_each print_node (?pre @ x # post) =
          (Inl (KeyError ''type''), concat (map (\<lambda>n. snd (print_node n)) ?pre) @ [])"
    by (rule for_each_fail [OF ok print_node_lacks_type [OF x]])
  moreover have "for_each print_node flows = for_each print_node (?pre @ x # post)"
    by (rule arg_cong [OF split])
  ultimately have loop: "for_each print_node flows =
          (Inl (KeyError ''type''), concat (map spec_node_lines ?pre))"
    by (simp only: lines append_Nil2)
  from assms(3)
  have f: "(case map_of kvs ''flows'' of None \<Rightarrow> JArray [] | Some v \<Rightarrow> v) = JArray flows"
    by simp
  show ?thesis
    by (simp add: get_flow_status_def status_try_list [OF assms(1,2) f] loop io_defs)
qed

theorem get_flow_status_missing_type_witness:
  \<open>get_flow_status
     (Inr \<lparr>status_code = 200,
           body_text = ''{"flows": [{"type": "tab", "label": "Main"}, {"name": "n1"}, 7]}'',
           json_body = Some (JObject [(''flows'', JArray
             [JObject [(''type'', JString ''tab''), (''label'', JString ''Main'')],
              JObject [(''name'', JString ''n1'')],
              JInt 7])])\<rparr>) =
     (Inr False,
      [HttpGet ''http://localhost:1880/flows'',
       Print [Lit ''Number of nodes: '', StrInt 3],
       Print [Lit ''Flow tab: '', StrJson (JString ''Main'')],
       Print [Lit ''Error getting flow status: '', StrExc (KeyError ''type'')]])\<close>
proof -
  let ?flows = "[JObject [(''type'', JString ''tab''), (''label'', JString ''Main'')],
                 JObject [(''name'', JString ''n1'')],
                 JInt 7]"
  let ?kvs = "[(''flows'', JArray ?flows)]"
  let ?r = \<open>\<lparr>status_code = 200,
           body_text = ''{"flows": [{"type": "tab", "label": "Main"}, {"name": "n1"}, 7]}'',
           json_body = Some (JObject ?kvs)\<rparr>\<close>
  have 1: "status_code ?r = 200" and 2: "json_body ?r = Some (JObject ?kvs)"
    by simp_all
  have 3: "map_of ?kvs ''flows'' = Some (JArray ?flows)"
    by simp
  have 4: "\<exists>n\<in>set ?flows. lacks_type n"
    by (simp add: lacks_type_def)
  have 5: "\<forall>n\<in>set (takeWhile (\<lambda>n. \<not> lacks_type n) ?flows). is_descriptor n"
    by (simp add: lacks_type_def is_descriptor_def)
  from get_flow_status_missing_type [OF 1 2 3 4 5] show ?thesis
    by (simp add: lacks_type_def spec_node_lines_def)
qed

section \<open>Properties of the entry point\<close>

text \<open>
  Claim C7. The entry point always prints the start banner first and calls
  \<^verbatim>\<open>deploy_flow\<close> exactly once: the flow file is opened once in the whole run. When
  \<^verbatim>\<open>deploy_flow\<close> returns true, the run goes on with the waiting line, a sleep of
  exactly 5 seconds, the checking line, one call of \<^verbatim>\<open>get_flow_status\<close> (one more GET)
  and the three lines of the completion banner, whatever \<^verbatim>\<open>get_flow_status\<close> returns.
  When \<^verbatim>\<open>deploy_flow\<close> returns false, the run ends with the failure banner, without a
  sleep and without a further GET. A sleep happens only when \<^verbatim>\<open>deploy_flow\<close> returned
  true.
\<close>

theorem main_orchestration:
  "(\<exists>rest. snd (main file get_outcome post_outcome status_outcome) =
       Print [Lit ''Deploying test flow to Node-RED...''] # rest)
   \<and> opened (snd (main file get_outcome post_outcome status_outcome)) = [''test-flow.json'']
   \<and> (fst (deploy_flow file get_outcome post_outcome) = Inr True \<longrightarrow>
        main file get_outcome post_outcome status_outcome =
          (Inr (),
           Print [Lit ''Deploying test flow to Node-RED...'']
           # snd (deploy_flow file get_outcome post_outcome)
           @ [Print [Lit ''Waiting for flow to initialize...''], Sleep 5,
              Print [Lit ''Checking flow status...'']]
           @ snd (get_flow_status status_outcome)
           @ [Print [Lit ''\<newline>Flow deployed successfully! You can now view the results in Node-RED's debug panel.''],
              Print [Lit ''Access Node-RED at: http://localhost:1880''],
              Print [Lit ''Make sure to click the 'Deploy' button in the Node-RED UI to activate the flow.'']])
        \<and> sleeps (snd (main file get_outcome post_outcome status_outcome)) = [5]
        \<and> gets (snd (main file get_outcome post_outcome status_outcome)) =
            gets (snd (deploy_flow file get_outcome post_outcome))
            @ [''http://localhost:1880/flows''])
   \<and> (fst (deploy_flow file get_outcome post_outcome) = Inr False \<longrightarrow>
        main file get_outcome post_outcome status_outcome =
          (Inr (),
           Print [Lit ''Deploying test flow to Node-RED...'']
           # snd (deploy_flow file get_outcome post_outcome)
           @ [Print [Lit ''Failed to deploy flow.'']])
        \<and> sleeps (snd (main file get_outcome post_outcome status_outcome)) = []
        \<and> gets (snd (main file get_outcome post_outcome status_outcome)) =
            gets (snd (deploy_flow file get_outcome post_outcome)))
   \<and> (sleeps (snd (main file get_outcome post_outcome status_outcome)) \<noteq> [] \<longrightarrow>
        fst (deploy_flow file get_outcome post_outcome) = Inr True)"
proof (cases "deploy_flow file get_outcome post_outcome")
  case (Pair x t)
  note q = deploy_flow_quiet [of "file" get_outcome post_outcome]
    get_flow_status_quiet [of status_outcome]
  show ?thesis
  proof (cases x)
    case (Inl e)
    with Pair q show ?thesis
      by (simp add: main_unfold trace_leaves)
  next
    case (Inr deployed)
    with Pair q show ?thesis
      by (cases deployed)
         (simp_all add: main_unfold trace_leaves sleeps_append opened_append gets_append)
  qed
qed

theorem main_orchestration_witness:
  "main (Inr (JArray []))
     (Inr \<lparr>status_code = 404, body_text = ''Not Found'', json_body = None\<rparr>)
     (\<lambda>body. Inr \<lparr>status_code = 200, body_text = '''', json_body = None\<rparr>)
     (Inr \<lparr>status_code = 503, body_text = ''Service Unavailable'', json_body = None\<rparr>) =
     (Inr (),
      [Print [Lit ''Deploying test flow to Node-RED...''],
       OpenRead ''test-flow.json'',
       HttpGet ''http://localhost:1880/flows'',
       HttpPost ''http://localhost:1880/flows'' [(''Content-Type'', ''application/json'')]
         (JObject [(''flows'', JArray [])]),
       Print [Lit ''Flow deployed successfully!''],
       Print [Lit ''Waiting for flow to initialize...''],
       Sleep 5,
       Print [Lit ''Checking flow status...''],
       HttpGet ''http://localhost:1880/flows'',
       Print [Lit ''Failed to get flows: '', StrInt 503],
       Print [Lit ''\<newline>Flow deployed successfully! You can now view the results in Node-RED's debug panel.''],
       Print [Lit ''Access Node-RED at: http://localhost:1880''],
       Print [Lit ''Make sure to click the 'Deploy' button in the Node-RED UI to activate the flow.'']])
   \<and> main (Inr (JArray []))
     (Inl (RequestException ''ConnectionError''))
     (\<lambda>body. Inr \<lparr>status_code = 200, body_text = '''', json_body = None\<rparr>)
     (Inr \<lparr>status_code = 503, body_text = ''Service Unavailable'', json_body = None\<rparr>) =
     (Inr (),
      [Print [Lit ''Deploying test flow to Node-RED...''],
       OpenRead ''test-flow.json'',
       HttpGet ''http://localhost:1880/flows'',
       Print [Lit ''Error deploying flow: '', StrExc (RequestException ''ConnectionError'')],
       Print [Lit ''Failed to deploy flow.'']])"
proof
  let ?nodes = "Inr (JArray []) :: exc + json"
  let ?get = "Inr \<lparr>status_code = 404, body_text = ''Not Found'', json_body = None\<rparr> :: exc + response"
  let ?post = "\<lambda>body::json. Inr \<lparr>status_code = 200, body_text = '''', json_body = None\<rparr> :: exc + response"
  let ?status = "Inr \<lparr>status_code = 503, body_text = ''Service Unavailable'', json_body = None\<rparr> :: exc + response"
  have d: "deploy_flow ?nodes ?get ?post =
     (Inr True,
      [OpenRead ''test-flow.json'',
       HttpGet ''http://localhost:1880/flows'',
       HttpPost ''http://localhost:1880/flows'' [(''Content-Type'', ''application/json'')]
         (JObject [(''flows'', JArray [])]),
       Print [Lit ''Flow deployed successfully!'']])"
    by (simp add: deploy_defs py_truthy_def)
  have s: "get_flow_status ?status =
     (Inr False,
      [HttpGet ''http://localhost:1880/flows'',
       Print [Lit ''Failed to get flows: '', StrInt 503]])"
    by (simp add: get_flow_status_handler status_try_not_200)
  from main_orchestration [of ?nodes ?get ?post ?status]
  have "fst (deploy_flow ?nodes ?get ?post) = Inr True \<longrightarrow>
        main ?nodes ?get ?post ?status =
          (Inr (),
           Print [Lit ''Deploying test flow to Node-RED...'']
           # snd (deploy_flow ?nodes ?get ?post)
           @ [Print [Lit ''Waiting for flow to initialize...''], Sleep 5,
              Print [Lit ''Checking flow status...'']]
           @ snd (get_flow_status ?status)
           @ [Print [Lit ''\<newline>Flow deployed successfully! You can now view the results in Node-RED's debug panel.''],
              Print [Lit ''Access Node-RED at: http://localhost:1880''],
              Print [Lit ''Make sure to click the 'Deploy' button in the Node-RED UI to activate the flow.'']])"
    by blast
  then show "main ?nodes ?get ?post ?status =
     (Inr (),
      [Print [Lit ''Deploying test flow to Node-RED...''],
       OpenRead ''test-flow.json'',
       HttpGet ''http://localhost:1880/flows'',
       HttpPost ''http://localhost:1880/flows'' [(''Content-Type'', ''application/json'')]
         (JObject [(''flows'', JArray [])]),
       Print [Lit ''Flow deployed successfully!''],
       Print [Lit ''Waiting for flow to initialize...''],
       Sleep 5,
       Print [Lit ''Checking flow status...''],
       HttpGet ''http://localhost:1880/flows'',
       Print [Lit ''Failed to get flows: '', StrInt 503],
       Print [Lit ''\<newline>Flow deployed successfully! You can now view the results in Node-RED's debug panel.''],
       Print [Lit ''Access Node-RED at: http://localhost:1880''],
       Print [Lit ''Make sure to click the 'Deploy' button in the Node-RED UI to activate the flow.'']])"
    by (simp add: d s)
next
  let ?nodes = "Inr (JArray []) :: exc + json"
  let ?get = "Inl (RequestException ''ConnectionError'') :: exc + response"
  let ?post = "\<lambda>body::json. Inr \<lparr>status_code = 200, body_text = '''', json_body = None\<rparr> :: exc + response"
  let ?status = "Inr \<lparr>status_code = 503, body_text = ''Service Unavailable'', json_body = None\<rparr> :: exc + response"
  have d: "deploy_flow ?nodes ?get ?post =
     (Inr False,
      [OpenRead ''test-flow.json'',
       HttpGet ''http://localhost:1880/flows'',
       Print [Lit ''Error deploying flow: '', StrExc (RequestException ''ConnectionError'')]])"
    by (simp add: deploy_flow_get_error)
  from main_orchestration [of ?nodes ?get ?post ?status]
  have "fst (deploy_flow ?nodes ?get ?post) = Inr False \<longrightarrow>
        main ?nodes ?get ?post ?status =
          (Inr (),
           Print [Lit ''Deploying test flow to Node-RED...'']
           # snd (deploy_flow ?nodes ?get ?post)
           @ [Print [Lit ''Failed to deploy flow.'']])"
    by blast
  then show "main ?nodes ?get ?post ?status =
     (Inr (),
      [Print [Lit ''Deploying test flow to Node-RED...''],
       OpenRead ''test-flow.json'',
       HttpGet ''http://localhost:1880/flows'',
       Print [Lit ''Error deploying flow: '', StrExc (RequestException ''ConnectionError'')],
       Print [Lit ''Failed to deploy flow.'']])"
    by (simp add: d)
qed

end
